theory Spec2Isabelle
  imports Main "HOL-Library.Word"
begin

section \<open>httpnpipe: an HTTP transport over named pipes\<close>

text \<open>
  The package has one type, \<open>Transport\<close>, and two methods on it:
  \<open>RegisterTargetService\<close>, which fills the map from service names to pipe names, and
  \<open>RoundTrip\<close>, which validates a request, resolves its URL host in that map, dials the
  pipe, writes the request and reads the response.

  The embedding is shallow. Each method is a function from the transport (and, for
  \<open>RoundTrip\<close>, the request and the environment) to the way the call ends, the transport
  afterwards, and the list of things the call did, in order. One call is modelled at a
  time; nothing is said about goroutines running at once.
\<close>

subsection \<open>Data\<close>

text \<open>
  \<open>time.Duration\<close> is an \<open>int64\<close> of nanoseconds: a 64-bit word read as a signed number
  (\<open>sint\<close>). A point in time is a number of nanoseconds, and \<open>Time.Add\<close> moves it by the
  signed duration. (The standard library saturates at the ends of its range of years;
  no sum of a clock reading and an \<open>int64\<close> of nanoseconds gets there.)
\<close>

type_synonym duration = "64 word"

type_synonym time = int

definition time_Add :: "time \<Rightarrow> duration \<Rightarrow> time" where
  "time_Add t d = t + sint d"

text \<open>\<open>const Scheme = "http+npipe"\<close>\<close>

definition Scheme :: string where
  "Scheme = ''http+npipe''"

text \<open>
  Of \<open>url.URL\<close> and \<open>http.Request\<close> the fields the package reads. \<open>Request.URL\<close> is a
  pointer, and \<open>None\<close> is the nil pointer. The request itself and the receiver are
  taken to be non-nil, as every caller of an \<open>http.RoundTripper\<close> passes them.
\<close>

record url =
  url_Scheme :: string
  url_Host :: string

record request =
  req_URL :: "url option"
  req_Host :: string

datatype response = Response int string

text \<open>
  An \<open>error\<close> value is either made here by \<open>errors.New\<close>, or comes from a collaborator
  (the pipe dial, the request writer, the response parser).
\<close>

datatype error = errors_New string | foreign string

datatype conn = Conn nat

datatype reader = bufio_NewReader conn

text \<open>
  The struct. \<open>mutex\<close> is \<open>True\<close> while the \<open>sync.Mutex\<close> is held. \<open>pipeMapping\<close> is a Go
  map: \<open>None\<close> is the nil map of the zero value, \<open>Some m\<close> a map made by \<open>make\<close>.
\<close>

record transport =
  DialTimeout :: duration
  RequestTimeout :: duration
  ResponseHeaderTimeout :: duration
  mutex :: bool
  pipeMapping :: "(string \<rightharpoonup> string) option"

text \<open>
  Reading a Go map with \<open>v, ok := m[k]\<close>: a nil map has no entry for any key and the read
  does not panic. \<open>Some v\<close> stands for \<open>(v, true)\<close>, \<open>None\<close> for \<open>("", false)\<close>.
\<close>

fun map_index :: "(string \<rightharpoonup> string) option \<Rightarrow> string \<Rightarrow> string option" where
  "map_index None k = None"
| "map_index (Some m) k = m k"

text \<open>
  How a call ends: it returns, it panics with a message, or it waits at \<open>Lock\<close> for a
  mutex that is held (with one call at a time, for ever).
\<close>

datatype 'a outcome = Returns 'a | Panics string | Blocks

text \<open>
  What a call does that can be seen from outside, in order: the read of the registry, the
  dial of a pipe path with a timeout, a reading of the clock, the two deadlines set on the
  connection, the write of the request to the connection, and the parse of the response
  from the buffered reader.
\<close>

datatype event =
    Lookup string
  | Dial string duration
  | TimeNow
  | SetWriteDeadline conn time
  | Write request conn
  | SetReadDeadline conn time
  | ReadResponse reader request

text \<open>
  The collaborators are not part of the package: \<open>sockets.DialPipe\<close>, \<open>time.Now\<close>,
  \<open>Request.Write\<close> and \<open>http.ReadResponse\<close>. Each is a parameter, and what it answers may
  depend on its arguments and on everything the call has done before (so a deadline set
  earlier can make the write or the read fail, and the clock can move between two
  readings). A dial answers with an error or with a connection.
\<close>

record world =
  sockets_DialPipe :: "event list \<Rightarrow> string \<Rightarrow> duration \<Rightarrow> error + conn"
  time_Now :: "event list \<Rightarrow> time"
  Request_Write :: "event list \<Rightarrow> request \<Rightarrow> conn \<Rightarrow> error option"
  http_ReadResponse :: "event list \<Rightarrow> reader \<Rightarrow> request \<Rightarrow> response option \<times> error option"

record 'a call =
  outcome :: "'a outcome"
  after :: transport
  events :: "event list"

subsection \<open>RegisterTargetService\<close>

text \<open>
  \<^verbatim>\<open>
  transport.mutex.Lock()
  defer transport.mutex.Unlock()
  if transport.pipeMapping == nil {
      transport.pipeMapping = make(map[string]string)
  }
  if _, exists := transport.pipeMapping[serviceName]; exists {
      panic("service " + serviceName + " already registered")
  }
  transport.pipeMapping[serviceName] = pipeName
  \<close>
  The deferred \<open>Unlock\<close> runs on the normal return and on the panic alike. Assigning into a
  nil map panics in Go; the branch is kept although the \<open>make\<close> above rules it out.
\<close>

definition RegisterTargetService :: "transport \<Rightarrow> string \<Rightarrow> string \<Rightarrow> unit outcome \<times> transport" where
  "RegisterTargetService t serviceName pipeName =
    (if mutex t then (Blocks, t)
     else
       let t1 = t\<lparr>mutex := True\<rparr>;
           t2 = (case pipeMapping t1 of
                   None \<Rightarrow> t1\<lparr>pipeMapping := Some Map.empty\<rparr>
                 | Some _ \<Rightarrow> t1)
       in case map_index (pipeMapping t2) serviceName of
            Some _ \<Rightarrow>
              (Panics (''service '' @ serviceName @ '' already registered''), t2\<lparr>mutex := False\<rparr>)
          | None \<Rightarrow>
              (case pipeMapping t2 of
                 None \<Rightarrow> (Panics ''assignment to entry in nil map'', t2\<lparr>mutex := False\<rparr>)
               | Some m \<Rightarrow>
                   (Returns (), t2\<lparr>pipeMapping := Some (m(serviceName \<mapsto> pipeName)), mutex := False\<rparr>)))"

subsection \<open>RoundTrip\<close>

text \<open>
  \<^verbatim>\<open>
  if req.URL == nil {
      return nil, errors.New("http+npipe: nil Request.URL")
  }
  if req.URL.Scheme != Scheme {
      return nil, errors.New("unsupported protocol scheme: " + req.URL.Scheme)
  }
  if req.URL.Host == "" {
      return nil, errors.New("http+npipe: no Host in request URL")
  }
  transport.mutex.Lock()
  pipeName, ok := transport.pipeMapping[req.URL.Host]
  transport.mutex.Unlock()
  if !ok {
      return nil, errors.New("unknown service: " + req.Host)
  }
  c, err := sockets.DialPipe(pipeName, transport.DialTimeout)
  if err != nil {
      return nil, err
  }
  r := bufio.NewReader(c)
  if transport.RequestTimeout > 0 {
      c.SetWriteDeadline(time.Now().Add(transport.RequestTimeout))
  }
  if err := req.Write(c); err != nil {
      return nil, err
  }
  if transport.ResponseHeaderTimeout > 0 {
      c.SetReadDeadline(time.Now().Add(transport.ResponseHeaderTimeout))
  }
  resp, err := http.ReadResponse(r, req)
  return resp, err
  \<close>
  The result pair \<open>(resp, err)\<close> is kept as a pair of options, \<open>None\<close> for nil. The errors
  that \<open>SetWriteDeadline\<close> and \<open>SetReadDeadline\<close> return are dropped by the code, so the
  model records the calls only.
\<close>

definition early :: "transport \<Rightarrow> event list \<Rightarrow> error \<Rightarrow> (response option \<times> error option) call" where
  "early t tr err = \<lparr>outcome = Returns (None, Some err), after = t, events = tr\<rparr>"

definition RoundTrip :: "world \<Rightarrow> transport \<Rightarrow> request \<Rightarrow> (response option \<times> error option) call" where
  "RoundTrip w t req =
    (case req_URL req of
       None \<Rightarrow> early t [] (errors_New ''http+npipe: nil Request.URL'')
     | Some u \<Rightarrow>
        (if url_Scheme u \<noteq> Scheme then
           early t [] (errors_New (''unsupported protocol scheme: '' @ url_Scheme u))
         else if url_Host u = [] then
           early t [] (errors_New ''http+npipe: no Host in request URL'')
         else if mutex t then
           \<lparr>outcome = Blocks, after = t, events = []\<rparr>
         else
           (let t1 = t\<lparr>mutex := True\<rparr>;
                found = map_index (pipeMapping t1) (url_Host u);
                t2 = t1\<lparr>mutex := False\<rparr>;
                tr1 = [Lookup (url_Host u)]
            in (case found of
                  None \<Rightarrow> early t2 tr1 (errors_New (''unknown service: '' @ req_Host req))
                | Some pipeName \<Rightarrow>
                   (case sockets_DialPipe w tr1 pipeName (DialTimeout t2) of
                      Inl err \<Rightarrow> early t2 (tr1 @ [Dial pipeName (DialTimeout t2)]) err
                    | Inr c \<Rightarrow>
                       (let tr2 = tr1 @ [Dial pipeName (DialTimeout t2)];
                            r = bufio_NewReader c;
                            tr3 = (if 0 < sint (RequestTimeout t2)
                                   then tr2 @ [TimeNow,
                                               SetWriteDeadline c
                                                 (time_Add (time_Now w tr2) (RequestTimeout t2))]
                                   else tr2)
                        in (case Request_Write w tr3 req c of
                              Some err \<Rightarrow> early t2 (tr3 @ [Write req c]) err
                            | None \<Rightarrow>
                               (let tr4 = tr3 @ [Write req c];
                                    tr5 = (if 0 < sint (ResponseHeaderTimeout t2)
                                           then tr4 @ [TimeNow,
                                                       SetReadDeadline c
                                                         (time_Add (time_Now w tr4)
                                                            (ResponseHeaderTimeout t2))]
                                           else tr4)
                                in \<lparr>outcome = Returns (http_ReadResponse w tr5 r req),
                                    after = t2,
                                    events = tr5 @ [ReadResponse r req]\<rparr>))))))))"

subsection \<open>Sample transports, requests and environments\<close>

text \<open>The zero value of the struct: no timeouts, a free mutex, a nil map.\<close>

definition zero_Transport :: transport where
  "zero_Transport =
     \<lparr>DialTimeout = 0, RequestTimeout = 0, ResponseHeaderTimeout = 0,
      mutex = False, pipeMapping = None\<rparr>"

text \<open>A transport with one registered service and the given request and header timeouts.\<close>

definition docker_Transport :: "duration \<Rightarrow> duration \<Rightarrow> transport" where
  "docker_Transport rt rht =
     \<lparr>DialTimeout = 0, RequestTimeout = rt, ResponseHeaderTimeout = rht,
      mutex = False,
      pipeMapping = Some [''docker'' \<mapsto> ''//./pipe/docker_engine'']\<rparr>"

text \<open>A request for \<open>scheme://host/\<close> whose \<open>Host\<close> field is \<open>h\<close>.\<close>

definition request_to :: "string \<Rightarrow> string \<Rightarrow> string \<Rightarrow> request" where
  "request_to scheme host h =
     \<lparr>req_URL = Some \<lparr>url_Scheme = scheme, url_Host = host\<rparr>, req_Host = h\<rparr>"

definition request_without_URL :: request where
  "request_without_URL = \<lparr>req_URL = None, req_Host = ''docker''\<rparr>"

text \<open>
  Three environments. In the first the pipe answers; in the second the dial fails; in the
  third the dial succeeds and the write fails. The clock reads 1000 at every reading.
\<close>

definition pipe_up :: world where
  "pipe_up =
     \<lparr>sockets_DialPipe = (\<lambda>h p d. Inr (Conn 1)),
      time_Now = (\<lambda>h. 1000),
      Request_Write = (\<lambda>h r c. None),
      http_ReadResponse = (\<lambda>h r q. (Some (Response 200 ''OK''), None))\<rparr>"

definition pipe_down :: world where
  "pipe_down =
     \<lparr>sockets_DialPipe = (\<lambda>h p d. Inl (foreign ''open pipe: file not found'')),
      time_Now = (\<lambda>h. 1000),
      Request_Write = (\<lambda>h r c. None),
      http_ReadResponse = (\<lambda>h r q. (Some (Response 200 ''OK''), None))\<rparr>"

definition pipe_stalled :: world where
  "pipe_stalled =
     \<lparr>sockets_DialPipe = (\<lambda>h p d. Inr (Conn 1)),
      time_Now = (\<lambda>h. 1000),
      Request_Write = (\<lambda>h r c. Some (foreign ''write pipe: i/o timeout'')),
      http_ReadResponse = (\<lambda>h r q. (None, Some (foreign ''unexpected EOF'')))\<rparr>"

subsection \<open>The paths of the two methods\<close>

text \<open>Releasing a mutex that was free before \<open>Lock\<close> gives the transport back as it was.\<close>

lemma unlock_free: "\<not> mutex t \<Longrightarrow> t\<lparr>mutex := False\<rparr> = t"
  by (cases t) simp

lemmas RoundTrip_unfold = RoundTrip_def early_def Let_def unlock_free

lemmas list_splits = append_eq_Cons_conv Cons_eq_append_conv append_eq_append_conv2

lemma Register_entry:
  assumes "\<not> mutex t" and "map_index (pipeMapping t) s = Some q"
  shows "RegisterTargetService t s p =
           (Panics (''service '' @ s @ '' already registered''), t)"
  using assms
  by (cases "pipeMapping t") (simp_all add: RegisterTargetService_def)

lemma Register_fresh:
  assumes "\<not> mutex t" and "map_index (pipeMapping t) s = None"
  shows "RegisterTargetService t s p =
           (Returns (), t\<lparr>pipeMapping := Some ((map_index (pipeMapping t))(s \<mapsto> p))\<rparr>)"
  using assms
  by (cases "pipeMapping t") (simp_all add: RegisterTargetService_def fun_eq_iff)

lemma Register_blocked: "mutex t \<Longrightarrow> RegisterTargetService t s p = (Blocks, t)"
  by (simp add: RegisterTargetService_def)

text \<open>
  Both methods give the mutex back: a call that finds it free leaves it free, on every
  path (the panic included). So every transport that calls made one after the other can
  reach from a zero value has a free mutex, which is the hypothesis \<open>\<not> mutex t\<close> below.
\<close>

lemma mutex_free_after:
  assumes "\<not> mutex t"
  shows "\<not> mutex (snd (RegisterTargetService t s p))"
    and "\<not> mutex (after (RoundTrip w t req))"
proof -
  show "\<not> mutex (snd (RegisterTargetService t s p))"
    using assms
    by (cases "map_index (pipeMapping t) s") (simp_all add: Register_fresh Register_entry)
  show "\<not> mutex (after (RoundTrip w t req))"
    using assms
    by (simp add: RoundTrip_def early_def Let_def split: option.splits sum.splits)
qed

subsection \<open>Registration\<close>

text \<open>
  C1. On a transport whose mutex is free, \<open>RegisterTargetService\<close> for a name that has an
  entry panics (it neither returns nor overwrites) and every lookup gives what it gave
  before; for a name that has no entry it returns, with no value, and the registry is the
  old one with the new pair added.
\<close>

theorem RegisterTargetService_duplicate_panics:
  assumes "\<not> mutex t"
  shows "(map_index (pipeMapping t) serviceName \<noteq> None \<longrightarrow>
            fst (RegisterTargetService t serviceName pipeName)
              = Panics (''service '' @ serviceName @ '' already registered'')
            \<and> map_index (pipeMapping (snd (RegisterTargetService t serviceName pipeName)))
              = map_index (pipeMapping t))
       \<and> (map_index (pipeMapping t) serviceName = None \<longrightarrow>
            fst (RegisterTargetService t serviceName pipeName) = Returns ()
            \<and> map_index (pipeMapping (snd (RegisterTargetService t serviceName pipeName)))
              = (map_index (pipeMapping t))(serviceName \<mapsto> pipeName))"
  using assms by (auto simp: Register_entry Register_fresh fun_eq_iff)

theorem RegisterTargetService_duplicate_panics_witness:
  "\<not> mutex (docker_Transport 0 0)
 \<and> map_index (pipeMapping (docker_Transport 0 0)) ''docker'' = Some ''//./pipe/docker_engine''
 \<and> fst (RegisterTargetService (docker_Transport 0 0) ''docker'' ''//./pipe/other'')
     = Panics ''service docker already registered''
 \<and> map_index (pipeMapping (snd (RegisterTargetService (docker_Transport 0 0) ''docker'' ''//./pipe/other'')))
       ''docker'' = Some ''//./pipe/docker_engine''
 \<and> \<not> mutex zero_Transport
 \<and> map_index (pipeMapping zero_Transport) ''docker'' = None
 \<and> fst (RegisterTargetService zero_Transport ''docker'' ''//./pipe/docker_engine'') = Returns ()
 \<and> map_index (pipeMapping (snd (RegisterTargetService zero_Transport ''docker'' ''//./pipe/docker_engine'')))
       ''docker'' = Some ''//./pipe/docker_engine''"
proof -
  have free: "\<not> mutex (docker_Transport 0 0)" "\<not> mutex zero_Transport"
    by (simp_all add: docker_Transport_def zero_Transport_def)
  have old: "map_index (pipeMapping (docker_Transport 0 0)) ''docker'' = Some ''//./pipe/docker_engine''"
    by (simp add: docker_Transport_def)
  have new: "map_index (pipeMapping zero_Transport) ''docker'' = None"
    by (simp add: zero_Transport_def)
  from RegisterTargetService_duplicate_panics [OF free(1), of "''docker''" "''//./pipe/other''"] old
  have dup: "fst (RegisterTargetService (docker_Transport 0 0) ''docker'' ''//./pipe/other'')
               = Panics ''service docker already registered''"
    "map_index (pipeMapping (snd (RegisterTargetService (docker_Transport 0 0) ''docker'' ''//./pipe/other'')))
       = map_index (pipeMapping (docker_Transport 0 0))"
    by simp_all
  from RegisterTargetService_duplicate_panics [OF free(2), of "''docker''" "''//./pipe/docker_engine''"] new
  have ins: "fst (RegisterTargetService zero_Transport ''docker'' ''//./pipe/docker_engine'') = Returns ()"
    "map_index (pipeMapping (snd (RegisterTargetService zero_Transport ''docker'' ''//./pipe/docker_engine'')))
       = (map_index (pipeMapping zero_Transport))(''docker'' \<mapsto> ''//./pipe/docker_engine'')"
    by simp_all
  show ?thesis
    using free old new dup ins by simp
qed

subsection \<open>Validation of the request\<close>

text \<open>
  C2. The scheme served is \<open>http+npipe\<close>. A request with a nil URL gets the nil-URL error;
  a request whose URL has another scheme gets the unsupported-scheme error, whatever its
  host; a request with the right scheme and an empty URL host gets the no-host error. In
  each case the call returns at once: the transport is untouched (the mutex is not even
  tried) and the call has done nothing, no registry read, no dial, no write and no read.
  So a call that has done anything at all had a request that passes the three checks.
\<close>

theorem RoundTrip_validates_before_io:
  "Scheme = ''http+npipe''
 \<and> (req_URL req = None \<longrightarrow>
      RoundTrip w t req =
        \<lparr>outcome = Returns (None, Some (errors_New ''http+npipe: nil Request.URL'')),
         after = t, events = []\<rparr>)
 \<and> (\<forall>u. req_URL req = Some u \<and> url_Scheme u \<noteq> Scheme \<longrightarrow>
      RoundTrip w t req =
        \<lparr>outcome = Returns (None, Some (errors_New (''unsupported protocol scheme: '' @ url_Scheme u))),
         after = t, events = []\<rparr>)
 \<and> (\<forall>u. req_URL req = Some u \<and> url_Scheme u = Scheme \<and> url_Host u = [] \<longrightarrow>
      RoundTrip w t req =
        \<lparr>outcome = Returns (None, Some (errors_New ''http+npipe: no Host in request URL'')),
         after = t, events = []\<rparr>)
 \<and> (events (RoundTrip w t req) \<noteq> [] \<longrightarrow>
      (\<exists>u. req_URL req = Some u \<and> url_Scheme u = Scheme \<and> url_Host u \<noteq> []))"
  by (auto simp: RoundTrip_def early_def Scheme_def split: option.splits)

theorem RoundTrip_validates_before_io_witness:
  "req_URL request_without_URL = None
 \<and> RoundTrip pipe_up (docker_Transport 0 0) request_without_URL =
      \<lparr>outcome = Returns (None, Some (errors_New ''http+npipe: nil Request.URL'')),
       after = docker_Transport 0 0, events = []\<rparr>
 \<and> req_URL (request_to ''https'' [] ''docker'') = Some \<lparr>url_Scheme = ''https'', url_Host = []\<rparr>
 \<and> ''https'' \<noteq> Scheme
 \<and> RoundTrip pipe_up (docker_Transport 0 0) (request_to ''https'' [] ''docker'') =
      \<lparr>outcome = Returns (None, Some (errors_New ''unsupported protocol scheme: https'')),
       after = docker_Transport 0 0, events = []\<rparr>
 \<and> req_URL (request_to ''http+npipe'' [] ''docker'') = Some \<lparr>url_Scheme = ''http+npipe'', url_Host = []\<rparr>
 \<and> RoundTrip pipe_up (docker_Transport 0 0) (request_to ''http+npipe'' [] ''docker'') =
      \<lparr>outcome = Returns (None, Some (errors_New ''http+npipe: no Host in request URL'')),
       after = docker_Transport 0 0, events = []\<rparr>
 \<and> events (RoundTrip pipe_up (docker_Transport 0 0) (request_to ''http+npipe'' ''docker'' ''docker'')) \<noteq> []
 \<and> (\<exists>u. req_URL (request_to ''http+npipe'' ''docker'' ''docker'') = Some u
        \<and> url_Scheme u = Scheme \<and> url_Host u \<noteq> [])"
proof -
  have nil: "req_URL request_without_URL = None"
    by (simp add: request_without_URL_def)
  have https: "req_URL (request_to ''https'' [] ''docker'') = Some \<lparr>url_Scheme = ''https'', url_Host = []\<rparr>"
    "''https'' \<noteq> Scheme"
    by (simp_all add: request_to_def Scheme_def)
  have nohost: "req_URL (request_to ''http+npipe'' [] ''docker'') = Some \<lparr>url_Scheme = ''http+npipe'', url_Host = []\<rparr>"
    "Scheme = ''http+npipe''"
    by (simp_all add: request_to_def Scheme_def)
  from RoundTrip_validates_before_io [of request_without_URL pipe_up "docker_Transport 0 0"] nil
  have 1: "RoundTrip pipe_up (docker_Transport 0 0) request_without_URL =
      \<lparr>outcome = Returns (None, Some (errors_New ''http+npipe: nil Request.URL'')),
       after = docker_Transport 0 0, events = []\<rparr>"
    by blast
  from RoundTrip_validates_before_io [of "request_to ''https'' [] ''docker''" pipe_up "docker_Transport 0 0"] https
  have 2: "RoundTrip pipe_up (docker_Transport 0 0) (request_to ''https'' [] ''docker'') =
      \<lparr>outcome = Returns (None, Some (errors_New ''unsupported protocol scheme: https'')),
       after = docker_Transport 0 0, events = []\<rparr>"
    by simp
  from RoundTrip_validates_before_io [of "request_to ''http+npipe'' [] ''docker''" pipe_up "docker_Transport 0 0"] nohost
  have 3: "RoundTrip pipe_up (docker_Transport 0 0) (request_to ''http+npipe'' [] ''docker'') =
      \<lparr>outcome = Returns (None, Some (errors_New ''http+npipe: no Host in request URL'')),
       after = docker_Transport 0 0, events = []\<rparr>"
    by simp
  have did: "events (RoundTrip pipe_up (docker_Transport 0 0)
                       (request_to ''http+npipe'' ''docker'' ''docker'')) \<noteq> []"
    by (simp add: RoundTrip_def Let_def request_to_def Scheme_def docker_Transport_def pipe_up_def)
  from RoundTrip_validates_before_io
         [of "request_to ''http+npipe'' ''docker'' ''docker''" pipe_up "docker_Transport 0 0"] did
  have 4: "\<exists>u. req_URL (request_to ''http+npipe'' ''docker'' ''docker'') = Some u
        \<and> url_Scheme u = Scheme \<and> url_Host u \<noteq> []"
    by blast
  show ?thesis
    using nil https nohost(1) 1 2 3 did 4 by blast
qed

subsection \<open>Resolution of the host\<close>

text \<open>
  C3. For a request that passes validation, on a transport whose mutex is free and whose
  registry has no entry for the URL host, \<open>RoundTrip\<close> returns an unknown-service error and
  the only thing it has done is the registry read. And in any call at all, a dial of a
  pipe path appears only if the registry maps the URL host to that path.
\<close>

theorem RoundTrip_unknown_service_no_dial:
  "(\<forall>u. req_URL req = Some u \<and> url_Scheme u = Scheme \<and> url_Host u \<noteq> [] \<and> \<not> mutex t
        \<and> map_index (pipeMapping t) (url_Host u) = None \<longrightarrow>
      outcome (RoundTrip w t req)
        = Returns (None, Some (errors_New (''unknown service: '' @ req_Host req)))
      \<and> events (RoundTrip w t req) = [Lookup (url_Host u)])
 \<and> (\<forall>p d. Dial p d \<in> set (events (RoundTrip w t req)) \<longrightarrow>
      (\<exists>u. req_URL req = Some u \<and> map_index (pipeMapping t) (url_Host u) = Some p))"
  by (auto simp: RoundTrip_unfold split: option.splits sum.splits if_splits)

theorem RoundTrip_unknown_service_no_dial_witness:
  "req_URL (request_to ''http+npipe'' ''swarm'' ''swarm'')
     = Some \<lparr>url_Scheme = ''http+npipe'', url_Host = ''swarm''\<rparr>
 \<and> Scheme = ''http+npipe'' \<and> ''swarm'' \<noteq> [] \<and> \<not> mutex (docker_Transport 0 0)
 \<and> map_index (pipeMapping (docker_Transport 0 0)) ''swarm'' = None
 \<and> outcome (RoundTrip pipe_up (docker_Transport 0 0) (request_to ''http+npipe'' ''swarm'' ''swarm''))
     = Returns (None, Some (errors_New ''unknown service: swarm''))
 \<and> events (RoundTrip pipe_up (docker_Transport 0 0) (request_to ''http+npipe'' ''swarm'' ''swarm''))
     = [Lookup ''swarm'']
 \<and> Dial ''//./pipe/docker_engine'' 0
     \<in> set (events (RoundTrip pipe_up (docker_Transport 0 0) (request_to ''http+npipe'' ''docker'' ''docker'')))
 \<and> (\<exists>u. req_URL (request_to ''http+npipe'' ''docker'' ''docker'') = Some u
        \<and> map_index (pipeMapping (docker_Transport 0 0)) (url_Host u) = Some ''//./pipe/docker_engine'')"
proof -
  have hyp: "req_URL (request_to ''http+npipe'' ''swarm'' ''swarm'')
        = Some \<lparr>url_Scheme = ''http+npipe'', url_Host = ''swarm''\<rparr>"
    "Scheme = ''http+npipe''" "''swarm'' \<noteq> []" "\<not> mutex (docker_Transport 0 0)"
    "map_index (pipeMapping (docker_Transport 0 0)) ''swarm'' = None"
    by (simp_all add: request_to_def Scheme_def docker_Transport_def)
  from RoundTrip_unknown_service_no_dial
         [of "request_to ''http+npipe'' ''swarm'' ''swarm''" "docker_Transport 0 0" pipe_up] hyp
  have unknown:
    "outcome (RoundTrip pipe_up (docker_Transport 0 0) (request_to ''http+npipe'' ''swarm'' ''swarm''))
       = Returns (None, Some (errors_New ''unknown service: swarm''))"
    "events (RoundTrip pipe_up (docker_Transport 0 0) (request_to ''http+npipe'' ''swarm'' ''swarm''))
       = [Lookup ''swarm'']"
    by (simp_all add: request_to_def)
  have dial: "Dial ''//./pipe/docker_engine'' 0
     \<in> set (events (RoundTrip pipe_up (docker_Transport 0 0) (request_to ''http+npipe'' ''docker'' ''docker'')))"
    by (simp add: RoundTrip_def Let_def request_to_def Scheme_def docker_Transport_def pipe_up_def)
  from RoundTrip_unknown_service_no_dial
         [of "request_to ''http+npipe'' ''docker'' ''docker''" "docker_Transport 0 0" pipe_up] dial
  have found: "\<exists>u. req_URL (request_to ''http+npipe'' ''docker'' ''docker'') = Some u
        \<and> map_index (pipeMapping (docker_Transport 0 0)) (url_Host u) = Some ''//./pipe/docker_engine''"
    by blast
  show ?thesis
    using hyp unknown dial found by blast
qed

subsection \<open>Dial and write failures\<close>

text \<open>
  C5. In every call: if the call dialled and the dial answered with an error, the call
  returns a nil response and that very error, it had not dialled before, and it does
  nothing afterwards (no second attempt); likewise if the call wrote the request and the
  write answered with an error.
\<close>

theorem RoundTrip_dial_write_errors_verbatim:
  "(events (RoundTrip w t req) = pre @ Dial p d # post \<and> sockets_DialPipe w pre p d = Inl e \<longrightarrow>
      outcome (RoundTrip w t req) = Returns (None, Some e)
      \<and> post = [] \<and> (\<forall>p' d'. Dial p' d' \<notin> set pre))
 \<and> (events (RoundTrip w t req) = pre' @ Write rq c # post' \<and> Request_Write w pre' rq c = Some e' \<longrightarrow>
      outcome (RoundTrip w t req) = Returns (None, Some e')
      \<and> post' = [] \<and> (\<forall>rq' c'. Write rq' c' \<notin> set pre'))"
  by (auto simp: RoundTrip_unfold list_splits split: option.splits sum.splits if_splits)

theorem RoundTrip_dial_write_errors_verbatim_witness:
  "events (RoundTrip pipe_down (docker_Transport 0 0) (request_to ''http+npipe'' ''docker'' ''docker''))
     = [Lookup ''docker''] @ Dial ''//./pipe/docker_engine'' 0 # []
 \<and> sockets_DialPipe pipe_down [Lookup ''docker''] ''//./pipe/docker_engine'' 0
     = Inl (foreign ''open pipe: file not found'')
 \<and> outcome (RoundTrip pipe_down (docker_Transport 0 0) (request_to ''http+npipe'' ''docker'' ''docker''))
     = Returns (None, Some (foreign ''open pipe: file not found''))
 \<and> events (RoundTrip pipe_stalled (docker_Transport 0 0) (request_to ''http+npipe'' ''docker'' ''docker''))
     = [Lookup ''docker'', Dial ''//./pipe/docker_engine'' 0]
         @ Write (request_to ''http+npipe'' ''docker'' ''docker'') (Conn 1) # []
 \<and> Request_Write pipe_stalled [Lookup ''docker'', Dial ''//./pipe/docker_engine'' 0]
       (request_to ''http+npipe'' ''docker'' ''docker'') (Conn 1)
     = Some (foreign ''write pipe: i/o timeout'')
 \<and> outcome (RoundTrip pipe_stalled (docker_Transport 0 0) (request_to ''http+npipe'' ''docker'' ''docker''))
     = Returns (None, Some (foreign ''write pipe: i/o timeout''))"
proof -
  let ?R = "request_to ''http+npipe'' ''docker'' ''docker''"
  have dfail: "events (RoundTrip pipe_down (docker_Transport 0 0) ?R)
        = [Lookup ''docker''] @ Dial ''//./pipe/docker_engine'' 0 # []"
    "sockets_DialPipe pipe_down [Lookup ''docker''] ''//./pipe/docker_engine'' 0
        = Inl (foreign ''open pipe: file not found'')"
    by (simp_all add: RoundTrip_def early_def Let_def request_to_def Scheme_def
          docker_Transport_def pipe_down_def)
  have wfail: "events (RoundTrip pipe_stalled (docker_Transport 0 0) ?R)
        = [Lookup ''docker'', Dial ''//./pipe/docker_engine'' 0] @ Write ?R (Conn 1) # []"
    "Request_Write pipe_stalled [Lookup ''docker'', Dial ''//./pipe/docker_engine'' 0] ?R (Conn 1)
        = Some (foreign ''write pipe: i/o timeout'')"
    by (simp_all add: RoundTrip_def early_def Let_def request_to_def Scheme_def
          docker_Transport_def pipe_stalled_def)
  from RoundTrip_dial_write_errors_verbatim
         [where w = pipe_down and t = "docker_Transport 0 0" and req = ?R
            and pre = "[Lookup ''docker'']" and p = "''//./pipe/docker_engine''" and d = 0
            and post = "[]" and e = "foreign ''open pipe: file not found''"] dfail
  have 1: "outcome (RoundTrip pipe_down (docker_Transport 0 0) ?R)
             = Returns (None, Some (foreign ''open pipe: file not found''))"
    by blast
  from RoundTrip_dial_write_errors_verbatim
         [where w = pipe_stalled and t = "docker_Transport 0 0" and req = ?R
            and pre' = "[Lookup ''docker'', Dial ''//./pipe/docker_engine'' 0]"
            and rq = ?R and c = "Conn 1"
            and post' = "[]" and e' = "foreign ''write pipe: i/o timeout''"] wfail
  have 2: "outcome (RoundTrip pipe_stalled (docker_Transport 0 0) ?R)
             = Returns (None, Some (foreign ''write pipe: i/o timeout''))"
    by blast
  show ?thesis
    using dfail wfail 1 2 by blast
qed

subsection \<open>Deadlines\<close>

text \<open>
  C4 does not hold as stated, with "set" read as "not zero": the code sets a deadline only
  for a duration above zero. With both timeouts at minus one nanosecond a call goes through
  the write and the read and sets no deadline:
\<close>

theorem RoundTrip_negative_timeout_counterexample:
  "RequestTimeout (docker_Transport (- 1) (- 1)) \<noteq> 0
 \<and> ResponseHeaderTimeout (docker_Transport (- 1) (- 1)) \<noteq> 0
 \<and> events (RoundTrip pipe_up (docker_Transport (- 1) (- 1)) (request_to ''http+npipe'' ''docker'' ''docker''))
     = [Lookup ''docker'',
        Dial ''//./pipe/docker_engine'' 0,
        Write (request_to ''http+npipe'' ''docker'' ''docker'') (Conn 1),
        ReadResponse (bufio_NewReader (Conn 1)) (request_to ''http+npipe'' ''docker'' ''docker'')]"
  by (simp add: RoundTrip_def Let_def request_to_def Scheme_def docker_Transport_def pipe_up_def)

text \<open>
  C4, amended. In every call that writes the request to a connection \<open>c\<close>: if
  \<open>RequestTimeout\<close> is above zero, the clock is read and the write deadline of \<open>c\<close> is set
  to that reading plus \<open>RequestTimeout\<close> immediately before the write; if it is zero or
  negative no write deadline is set. If \<open>ResponseHeaderTimeout\<close> is above zero and the call
  goes on to parse the response, the clock is read and the read deadline of \<open>c\<close> is set to
  that reading plus \<open>ResponseHeaderTimeout\<close> immediately before the parse, which is the
  last thing the call does; if it is zero or negative no read deadline is set.
\<close>

theorem RoundTrip_deadlines_when_positive:
  assumes "Write rq c \<in> set (events (RoundTrip w t req))"
  shows "(0 < sint (RequestTimeout t) \<longrightarrow>
           (\<exists>pre post. events (RoundTrip w t req)
               = pre @ [TimeNow,
                        SetWriteDeadline c (time_Now w pre + sint (RequestTimeout t)),
                        Write rq c] @ post))
       \<and> (sint (RequestTimeout t) \<le> 0 \<longrightarrow>
            (\<forall>c' d. SetWriteDeadline c' d \<notin> set (events (RoundTrip w t req))))
       \<and> (0 < sint (ResponseHeaderTimeout t) \<longrightarrow>
            (\<forall>r q. ReadResponse r q \<in> set (events (RoundTrip w t req)) \<longrightarrow>
               (\<exists>pre. events (RoundTrip w t req)
                  = pre @ [TimeNow,
                           SetReadDeadline c (time_Now w pre + sint (ResponseHeaderTimeout t)),
                           ReadResponse r q])))
       \<and> (sint (ResponseHeaderTimeout t) \<le> 0 \<longrightarrow>
            (\<forall>c' d. SetReadDeadline c' d \<notin> set (events (RoundTrip w t req))))"
  using assms
  by (auto simp: RoundTrip_unfold time_Add_def list_splits split: option.splits sum.splits if_splits)

theorem RoundTrip_deadlines_when_positive_witness:
  "events (RoundTrip pipe_up (docker_Transport 5000000000 3000000000)
             (request_to ''http+npipe'' ''docker'' ''docker''))
     = [Lookup ''docker'',
        Dial ''//./pipe/docker_engine'' 0,
        TimeNow,
        SetWriteDeadline (Conn 1) 5000001000,
        Write (request_to ''http+npipe'' ''docker'' ''docker'') (Conn 1),
        TimeNow,
        SetReadDeadline (Conn 1) 3000001000,
        ReadResponse (bufio_NewReader (Conn 1)) (request_to ''http+npipe'' ''docker'' ''docker'')]
 \<and> 0 < sint (RequestTimeout (docker_Transport 5000000000 3000000000))
 \<and> 0 < sint (ResponseHeaderTimeout (docker_Transport 5000000000 3000000000))
 \<and> (\<exists>pre post.
        events (RoundTrip pipe_up (docker_Transport 5000000000 3000000000)
                  (request_to ''http+npipe'' ''docker'' ''docker''))
          = pre @ [TimeNow,
                   SetWriteDeadline (Conn 1)
                     (time_Now pipe_up pre + sint (RequestTimeout (docker_Transport 5000000000 3000000000))),
                   Write (request_to ''http+npipe'' ''docker'' ''docker'') (Conn 1)] @ post)
 \<and> (\<exists>pre.
        events (RoundTrip pipe_up (docker_Transport 5000000000 3000000000)
                  (request_to ''http+npipe'' ''docker'' ''docker''))
          = pre @ [TimeNow,
                   SetReadDeadline (Conn 1)
                     (time_Now pipe_up pre
                        + sint (ResponseHeaderTimeout (docker_Transport 5000000000 3000000000))),
                   ReadResponse (bufio_NewReader (Conn 1))
                     (request_to ''http+npipe'' ''docker'' ''docker'')])
 \<and> Write (request_to ''http+npipe'' ''docker'' ''docker'') (Conn 1)
     \<in> set (events (RoundTrip pipe_up (docker_Transport 0 (- 1))
                       (request_to ''http+npipe'' ''docker'' ''docker'')))
 \<and> sint (RequestTimeout (docker_Transport 0 (- 1))) \<le> 0
 \<and> sint (ResponseHeaderTimeout (docker_Transport 0 (- 1))) \<le> 0
 \<and> (\<forall>c' d. SetWriteDeadline c' d
        \<notin> set (events (RoundTrip pipe_up (docker_Transport 0 (- 1))
                          (request_to ''http+npipe'' ''docker'' ''docker''))))
 \<and> (\<forall>c' d. SetReadDeadline c' d
        \<notin> set (events (RoundTrip pipe_up (docker_Transport 0 (- 1))
                          (request_to ''http+npipe'' ''docker'' ''docker''))))"
proof -
  let ?R = "request_to ''http+npipe'' ''docker'' ''docker''"
  let ?T = "docker_Transport 5000000000 3000000000"
  let ?N = "docker_Transport 0 (- 1)"
  have trace: "events (RoundTrip pipe_up ?T ?R)
     = [Lookup ''docker'', Dial ''//./pipe/docker_engine'' 0,
        TimeNow, SetWriteDeadline (Conn 1) 5000001000, Write ?R (Conn 1),
        TimeNow, SetReadDeadline (Conn 1) 3000001000,
        ReadResponse (bufio_NewReader (Conn 1)) ?R]"
    by (simp add: RoundTrip_def Let_def time_Add_def request_to_def Scheme_def
          docker_Transport_def pipe_up_def)
  have pos: "0 < sint (RequestTimeout ?T)" "0 < sint (ResponseHeaderTimeout ?T)"
    by (simp_all add: docker_Transport_def)
  have reached: "Write ?R (Conn 1) \<in> set (events (RoundTrip pipe_up ?T ?R))"
    "ReadResponse (bufio_NewReader (Conn 1)) ?R \<in> set (events (RoundTrip pipe_up ?T ?R))"
    by (simp_all add: trace)
  note positive = RoundTrip_deadlines_when_positive [OF reached(1)]
  from positive pos(1)
  have wd: "\<exists>pre post. events (RoundTrip pipe_up ?T ?R)
          = pre @ [TimeNow,
                   SetWriteDeadline (Conn 1) (time_Now pipe_up pre + sint (RequestTimeout ?T)),
                   Write ?R (Conn 1)] @ post"
    by blast
  from positive pos(2) reached(2)
  have rd: "\<exists>pre. events (RoundTrip pipe_up ?T ?R)
          = pre @ [TimeNow,
                   SetReadDeadline (Conn 1) (time_Now pipe_up pre + sint (ResponseHeaderTimeout ?T)),
                   ReadResponse (bufio_NewReader (Conn 1)) ?R]"
    by blast
  have reached0: "Write ?R (Conn 1) \<in> set (events (RoundTrip pipe_up ?N ?R))"
    by (simp add: RoundTrip_def Let_def request_to_def Scheme_def docker_Transport_def pipe_up_def)
  have nonpos: "sint (RequestTimeout ?N) \<le> 0" "sint (ResponseHeaderTimeout ?N) \<le> 0"
    by (simp_all add: docker_Transport_def)
  note none = RoundTrip_deadlines_when_positive [OF reached0]
  from none nonpos
  have nowd: "\<forall>c' d. SetWriteDeadline c' d \<notin> set (events (RoundTrip pipe_up ?N ?R))"
    and nord: "\<forall>c' d. SetReadDeadline c' d \<notin> set (events (RoundTrip pipe_up ?N ?R))"
    by blast+
  show ?thesis
    using trace pos wd rd reached0 nonpos nowd nord by blast
qed

text \<open>
  C9 does not hold as stated, for every call: a call that returns before the write sets
  no write deadline whatever \<open>RequestTimeout\<close> is, and a call whose write fails sets no
  read deadline whatever \<open>ResponseHeaderTimeout\<close> is. Both timeouts are five seconds
  here; the first call fails in the dial, the second in the write:
\<close>

theorem RoundTrip_deadline_iff_counterexample:
  "0 < sint (RequestTimeout (docker_Transport 5000000000 5000000000))
 \<and> 0 < sint (ResponseHeaderTimeout (docker_Transport 5000000000 5000000000))
 \<and> events (RoundTrip pipe_down (docker_Transport 5000000000 5000000000)
             (request_to ''http+npipe'' ''docker'' ''docker''))
     = [Lookup ''docker'', Dial ''//./pipe/docker_engine'' 0]
 \<and> events (RoundTrip pipe_stalled (docker_Transport 5000000000 5000000000)
             (request_to ''http+npipe'' ''docker'' ''docker''))
     = [Lookup ''docker'', Dial ''//./pipe/docker_engine'' 0,
        TimeNow, SetWriteDeadline (Conn 1) 5000001000,
        Write (request_to ''http+npipe'' ''docker'' ''docker'') (Conn 1)]"
  by (simp add: RoundTrip_def early_def Let_def time_Add_def request_to_def Scheme_def
        docker_Transport_def pipe_down_def pipe_stalled_def)

text \<open>
  C9, amended. In every call a write deadline is set exactly when \<open>RequestTimeout\<close> is
  above zero and the call gets to write the request; a read deadline is set exactly when
  \<open>ResponseHeaderTimeout\<close> is above zero and the call gets to parse the response. A call
  with a negative \<open>RequestTimeout\<close> (or \<open>ResponseHeaderTimeout\<close>) does the same things and
  ends the same way as the call with that timeout zero.
\<close>

theorem RoundTrip_deadline_iff_positive:
  "((\<exists>c d. SetWriteDeadline c d \<in> set (events (RoundTrip w t req)))
      \<longleftrightarrow> 0 < sint (RequestTimeout t) \<and> (\<exists>rq c. Write rq c \<in> set (events (RoundTrip w t req))))
 \<and> ((\<exists>c d. SetReadDeadline c d \<in> set (events (RoundTrip w t req)))
      \<longleftrightarrow> 0 < sint (ResponseHeaderTimeout t)
          \<and> (\<exists>r q. ReadResponse r q \<in> set (events (RoundTrip w t req))))
 \<and> (sint (RequestTimeout t) < 0 \<longrightarrow>
      events (RoundTrip w t req) = events (RoundTrip w (t\<lparr>RequestTimeout := 0\<rparr>) req)
    \<and> outcome (RoundTrip w t req) = outcome (RoundTrip w (t\<lparr>RequestTimeout := 0\<rparr>) req))
 \<and> (sint (ResponseHeaderTimeout t) < 0 \<longrightarrow>
      events (RoundTrip w t req) = events (RoundTrip w (t\<lparr>ResponseHeaderTimeout := 0\<rparr>) req)
    \<and> outcome (RoundTrip w t req) = outcome (RoundTrip w (t\<lparr>ResponseHeaderTimeout := 0\<rparr>) req))"
  by (auto simp: RoundTrip_unfold split: option.splits sum.splits if_splits)

theorem RoundTrip_deadline_iff_positive_witness:
  "0 < sint (RequestTimeout (docker_Transport 5000000000 5000000000))
 \<and> (\<exists>rq c. Write rq c
        \<in> set (events (RoundTrip pipe_up (docker_Transport 5000000000 5000000000)
                          (request_to ''http+npipe'' ''docker'' ''docker''))))
 \<and> (\<exists>c d. SetWriteDeadline c d
        \<in> set (events (RoundTrip pipe_up (docker_Transport 5000000000 5000000000)
                          (request_to ''http+npipe'' ''docker'' ''docker''))))
 \<and> 0 < sint (ResponseHeaderTimeout (docker_Transport 5000000000 5000000000))
 \<and> (\<exists>r q. ReadResponse r q
        \<in> set (events (RoundTrip pipe_up (docker_Transport 5000000000 5000000000)
                          (request_to ''http+npipe'' ''docker'' ''docker''))))
 \<and> (\<exists>c d. SetReadDeadline c d
        \<in> set (events (RoundTrip pipe_up (docker_Transport 5000000000 5000000000)
                          (request_to ''http+npipe'' ''docker'' ''docker''))))
 \<and> sint (RequestTimeout (docker_Transport (- 1) (- 1))) < 0
 \<and> sint (ResponseHeaderTimeout (docker_Transport (- 1) (- 1))) < 0
 \<and> events (RoundTrip pipe_up (docker_Transport (- 1) (- 1)) (request_to ''http+npipe'' ''docker'' ''docker''))
     = events (RoundTrip pipe_up ((docker_Transport (- 1) (- 1))\<lparr>RequestTimeout := 0\<rparr>)
                 (request_to ''http+npipe'' ''docker'' ''docker''))
 \<and> events (RoundTrip pipe_up (docker_Transport (- 1) (- 1)) (request_to ''http+npipe'' ''docker'' ''docker''))
     = events (RoundTrip pipe_up ((docker_Transport (- 1) (- 1))\<lparr>ResponseHeaderTimeout := 0\<rparr>)
                 (request_to ''http+npipe'' ''docker'' ''docker''))"
proof -
  let ?R = "request_to ''http+npipe'' ''docker'' ''docker''"
  let ?T = "docker_Transport 5000000000 5000000000"
  let ?N = "docker_Transport (- 1) (- 1)"
  have pos: "0 < sint (RequestTimeout ?T)" "0 < sint (ResponseHeaderTimeout ?T)"
    by (simp_all add: docker_Transport_def)
  have "Write ?R (Conn 1) \<in> set (events (RoundTrip pipe_up ?T ?R))"
    by (simp add: RoundTrip_def Let_def request_to_def Scheme_def docker_Transport_def pipe_up_def)
  then have wr: "\<exists>rq c. Write rq c \<in> set (events (RoundTrip pipe_up ?T ?R))"
    by blast
  have "ReadResponse (bufio_NewReader (Conn 1)) ?R \<in> set (events (RoundTrip pipe_up ?T ?R))"
    by (simp add: RoundTrip_def Let_def request_to_def Scheme_def docker_Transport_def pipe_up_def)
  then have rd: "\<exists>r q. ReadResponse r q \<in> set (events (RoundTrip pipe_up ?T ?R))"
    by blast
  note iff = RoundTrip_deadline_iff_positive [of pipe_up ?T ?R]
  from iff pos(1) wr
  have wd: "\<exists>c d. SetWriteDeadline c d \<in> set (events (RoundTrip pipe_up ?T ?R))"
    by blast
  from iff pos(2) rd
  have rdl: "\<exists>c d. SetReadDeadline c d \<in> set (events (RoundTrip pipe_up ?T ?R))"
    by blast
  have neg: "sint (RequestTimeout ?N) < 0" "sint (ResponseHeaderTimeout ?N) < 0"
    by (simp_all add: docker_Transport_def)
  note same = RoundTrip_deadline_iff_positive [of pipe_up ?N ?R]
  from same neg
  have eq: "events (RoundTrip pipe_up ?N ?R) = events (RoundTrip pipe_up (?N\<lparr>RequestTimeout := 0\<rparr>) ?R)"
    "events (RoundTrip pipe_up ?N ?R) = events (RoundTrip pipe_up (?N\<lparr>ResponseHeaderTimeout := 0\<rparr>) ?R)"
    by blast+
  show ?thesis
    using pos wr wd rd rdl neg eq by blast
qed

subsection \<open>The registry over several calls\<close>

text \<open>
  C6. On a transport with a free mutex where neither name is registered yet (a new
  transport is one), registering two different names one after the other returns both
  times; afterwards the registry maps the first name to the first pipe and the second to
  the second, and a \<open>RoundTrip\<close> for a valid request to either name reads the registry
  and dials that name's pipe.
\<close>

theorem RegisterTargetService_two_services:
  assumes "s1 \<noteq> s2" and "\<not> mutex t"
    and "map_index (pipeMapping t) s1 = None" and "map_index (pipeMapping t) s2 = None"
  shows "(let (o1, t1) = RegisterTargetService t s1 p1;
              (o2, t2) = RegisterTargetService t1 s2 p2
          in o1 = Returns () \<and> o2 = Returns ()
           \<and> map_index (pipeMapping t2) s1 = Some p1
           \<and> map_index (pipeMapping t2) s2 = Some p2
           \<and> (\<forall>w req u. req_URL req = Some u \<and> url_Scheme u = Scheme \<and> url_Host u \<noteq> [] \<longrightarrow>
                 (url_Host u = s1 \<longrightarrow>
                    take 2 (events (RoundTrip w t2 req)) = [Lookup s1, Dial p1 (DialTimeout t)])
               \<and> (url_Host u = s2 \<longrightarrow>
                    take 2 (events (RoundTrip w t2 req)) = [Lookup s2, Dial p2 (DialTimeout t)])))"
  using assms
  by (auto simp: Register_fresh RoundTrip_unfold split: option.splits sum.splits if_splits)

theorem RegisterTargetService_two_services_witness:
  "''docker'' \<noteq> ''containerd'' \<and> \<not> mutex zero_Transport
 \<and> map_index (pipeMapping zero_Transport) ''docker'' = None
 \<and> map_index (pipeMapping zero_Transport) ''containerd'' = None
 \<and> fst (RegisterTargetService zero_Transport ''docker'' ''//./pipe/docker_engine'') = Returns ()
 \<and> fst (RegisterTargetService
           (snd (RegisterTargetService zero_Transport ''docker'' ''//./pipe/docker_engine''))
           ''containerd'' ''//./pipe/containerd'') = Returns ()
 \<and> map_index (pipeMapping (snd (RegisterTargetService
           (snd (RegisterTargetService zero_Transport ''docker'' ''//./pipe/docker_engine''))
           ''containerd'' ''//./pipe/containerd''))) ''docker'' = Some ''//./pipe/docker_engine''
 \<and> map_index (pipeMapping (snd (RegisterTargetService
           (snd (RegisterTargetService zero_Transport ''docker'' ''//./pipe/docker_engine''))
           ''containerd'' ''//./pipe/containerd''))) ''containerd'' = Some ''//./pipe/containerd''
 \<and> take 2 (events (RoundTrip pipe_up
        (snd (RegisterTargetService
           (snd (RegisterTargetService zero_Transport ''docker'' ''//./pipe/docker_engine''))
           ''containerd'' ''//./pipe/containerd''))
        (request_to ''http+npipe'' ''containerd'' ''containerd'')))
     = [Lookup ''containerd'', Dial ''//./pipe/containerd'' 0]"
proof -
  have hyp: "''docker'' \<noteq> ''containerd''" "\<not> mutex zero_Transport"
    "map_index (pipeMapping zero_Transport) ''docker'' = None"
    "map_index (pipeMapping zero_Transport) ''containerd'' = None"
    by (simp_all add: zero_Transport_def)
  let ?R = "request_to ''http+npipe'' ''containerd'' ''containerd''"
  let ?U = "\<lparr>url_Scheme = ''http+npipe'', url_Host = ''containerd''\<rparr>"
  have req: "req_URL ?R = Some ?U" "url_Scheme ?U = Scheme" "url_Host ?U \<noteq> []"
    "url_Host ?U = ''containerd''"
    by (simp_all add: request_to_def Scheme_def)
  note two = RegisterTargetService_two_services
               [OF hyp, of "''//./pipe/docker_engine''" "''//./pipe/containerd''",
                unfolded Let_def split_beta]
  from two have regs:
    "fst (RegisterTargetService zero_Transport ''docker'' ''//./pipe/docker_engine'') = Returns ()"
    "fst (RegisterTargetService
           (snd (RegisterTargetService zero_Transport ''docker'' ''//./pipe/docker_engine''))
           ''containerd'' ''//./pipe/containerd'') = Returns ()"
    "map_index (pipeMapping (snd (RegisterTargetService
           (snd (RegisterTargetService zero_Transport ''docker'' ''//./pipe/docker_engine''))
           ''containerd'' ''//./pipe/containerd''))) ''docker'' = Some ''//./pipe/docker_engine''"
    "map_index (pipeMapping (snd (RegisterTargetService
           (snd (RegisterTargetService zero_Transport ''docker'' ''//./pipe/docker_engine''))
           ''containerd'' ''//./pipe/containerd''))) ''containerd'' = Some ''//./pipe/containerd''"
    by blast+
  from two req have
    "take 2 (events (RoundTrip pipe_up
        (snd (RegisterTargetService
           (snd (RegisterTargetService zero_Transport ''docker'' ''//./pipe/docker_engine''))
           ''containerd'' ''//./pipe/containerd''))
        ?R))
     = [Lookup ''containerd'', Dial ''//./pipe/containerd'' (DialTimeout zero_Transport)]"
    by blast
  then have trip:
    "take 2 (events (RoundTrip pipe_up
        (snd (RegisterTargetService
           (snd (RegisterTargetService zero_Transport ''docker'' ''//./pipe/docker_engine''))
           ''containerd'' ''//./pipe/containerd''))
        ?R))
     = [Lookup ''containerd'', Dial ''//./pipe/containerd'' 0]"
    by (simp add: zero_Transport_def)
  show ?thesis
    using hyp regs trip by blast
qed

text \<open>
  C7. Whatever the transport and however the call ends (return, panic on a duplicate, or
  blocked at the mutex), every entry the registry had before \<open>RegisterTargetService\<close> it
  has afterwards, with the same pipe path; and \<open>RoundTrip\<close> leaves the map as it was.
\<close>

theorem registry_entries_preserved:
  "(\<forall>k v. map_index (pipeMapping t) k = Some v \<longrightarrow>
       map_index (pipeMapping (snd (RegisterTargetService t s p))) k = Some v)
 \<and> pipeMapping (after (RoundTrip w t req)) = pipeMapping t"
proof -
  have "map_index (pipeMapping (snd (RegisterTargetService t s p))) k = Some v"
    if "map_index (pipeMapping t) k = Some v" for k v
  proof (cases "mutex t")
    case True
    with that show ?thesis by (simp add: Register_blocked)
  next
    case False
    show ?thesis
    proof (cases "map_index (pipeMapping t) s")
      case None
      with False that show ?thesis by (auto simp: Register_fresh)
    next
      case (Some q)
      with False that show ?thesis by (simp add: Register_entry)
    qed
  qed
  moreover have "pipeMapping (after (RoundTrip w t req)) = pipeMapping t"
    by (simp add: RoundTrip_def early_def Let_def split: option.splits sum.splits)
  ultimately show ?thesis by blast
qed

theorem registry_entries_preserved_witness:
  "map_index (pipeMapping (docker_Transport 0 0)) ''docker'' = Some ''//./pipe/docker_engine''
 \<and> map_index (pipeMapping (snd (RegisterTargetService (docker_Transport 0 0)
                                    ''containerd'' ''//./pipe/containerd''))) ''docker''
     = Some ''//./pipe/docker_engine''
 \<and> map_index (pipeMapping (snd (RegisterTargetService (docker_Transport 0 0)
                                    ''docker'' ''//./pipe/other''))) ''docker''
     = Some ''//./pipe/docker_engine''
 \<and> pipeMapping (after (RoundTrip pipe_up (docker_Transport 0 0)
                          (request_to ''http+npipe'' ''docker'' ''docker'')))
     = pipeMapping (docker_Transport 0 0)"
proof -
  have old: "map_index (pipeMapping (docker_Transport 0 0)) ''docker'' = Some ''//./pipe/docker_engine''"
    by (simp add: docker_Transport_def)
  from registry_entries_preserved
         [of "docker_Transport 0 0" "''containerd''" "''//./pipe/containerd''"] old
  have 1: "map_index (pipeMapping (snd (RegisterTargetService (docker_Transport 0 0)
                                    ''containerd'' ''//./pipe/containerd''))) ''docker''
             = Some ''//./pipe/docker_engine''"
    by blast
  from registry_entries_preserved
         [of "docker_Transport 0 0" "''docker''" "''//./pipe/other''"] old
  have 2: "map_index (pipeMapping (snd (RegisterTargetService (docker_Transport 0 0)
                                    ''docker'' ''//./pipe/other''))) ''docker''
             = Some ''//./pipe/docker_engine''"
    by blast
  from registry_entries_preserved
         [of "docker_Transport 0 0" _ _ pipe_up "request_to ''http+npipe'' ''docker'' ''docker''"]
  have 3: "pipeMapping (after (RoundTrip pipe_up (docker_Transport 0 0)
                          (request_to ''http+npipe'' ''docker'' ''docker'')))
             = pipeMapping (docker_Transport 0 0)"
    by blast
  show ?thesis
    using old 1 2 3 by blast
qed

subsection \<open>The name in the unknown-service error\<close>

text \<open>
  C8. When the lookup fails, the key that was looked up is the URL host, and the message
  of the error is \<open>unknown service: \<close> followed by the request's \<open>Host\<close> field; when the
  two differ the error is not the one that names the URL host.
\<close>

theorem RoundTrip_unknown_service_names_req_Host:
  assumes "req_URL req = Some u" and "url_Scheme u = Scheme" and "url_Host u \<noteq> []"
    and "\<not> mutex t" and "map_index (pipeMapping t) (url_Host u) = None"
  shows "events (RoundTrip w t req) = [Lookup (url_Host u)]
       \<and> outcome (RoundTrip w t req)
           = Returns (None, Some (errors_New (''unknown service: '' @ req_Host req)))
       \<and> (req_Host req \<noteq> url_Host u \<longrightarrow>
            outcome (RoundTrip w t req)
              \<noteq> Returns (None, Some (errors_New (''unknown service: '' @ url_Host u))))"
  using assms by (simp add: RoundTrip_unfold)

theorem RoundTrip_unknown_service_names_req_Host_witness:
  "req_URL (request_to ''http+npipe'' ''swarm'' []) = Some \<lparr>url_Scheme = ''http+npipe'', url_Host = ''swarm''\<rparr>
 \<and> Scheme = ''http+npipe'' \<and> ''swarm'' \<noteq> [] \<and> \<not> mutex (docker_Transport 0 0)
 \<and> map_index (pipeMapping (docker_Transport 0 0)) ''swarm'' = None
 \<and> req_Host (request_to ''http+npipe'' ''swarm'' []) \<noteq> ''swarm''
 \<and> events (RoundTrip pipe_up (docker_Transport 0 0) (request_to ''http+npipe'' ''swarm'' []))
     = [Lookup ''swarm'']
 \<and> outcome (RoundTrip pipe_up (docker_Transport 0 0) (request_to ''http+npipe'' ''swarm'' []))
     = Returns (None, Some (errors_New ''unknown service: ''))
 \<and> outcome (RoundTrip pipe_up (docker_Transport 0 0) (request_to ''http+npipe'' ''swarm'' []))
     \<noteq> Returns (None, Some (errors_New ''unknown service: swarm''))"
proof -
  have u: "req_URL (request_to ''http+npipe'' ''swarm'' []) = Some \<lparr>url_Scheme = ''http+npipe'', url_Host = ''swarm''\<rparr>"
    by (simp add: request_to_def)
  have hyp: "url_Scheme \<lparr>url_Scheme = ''http+npipe'', url_Host = ''swarm''\<rparr> = Scheme"
    "url_Host \<lparr>url_Scheme = ''http+npipe'', url_Host = ''swarm''\<rparr> \<noteq> []"
    "\<not> mutex (docker_Transport 0 0)"
    "map_index (pipeMapping (docker_Transport 0 0))
       (url_Host \<lparr>url_Scheme = ''http+npipe'', url_Host = ''swarm''\<rparr>) = None"
    by (simp_all add: Scheme_def docker_Transport_def)
  have differ: "req_Host (request_to ''http+npipe'' ''swarm'' []) \<noteq> ''swarm''"
    by (simp add: request_to_def)
  from RoundTrip_unknown_service_names_req_Host [OF u hyp, of pipe_up] differ
  have res: "events (RoundTrip pipe_up (docker_Transport 0 0) (request_to ''http+npipe'' ''swarm'' []))
       = [Lookup ''swarm'']"
    "outcome (RoundTrip pipe_up (docker_Transport 0 0) (request_to ''http+npipe'' ''swarm'' []))
       = Returns (None, Some (errors_New ''unknown service: ''))"
    "outcome (RoundTrip pipe_up (docker_Transport 0 0) (request_to ''http+npipe'' ''swarm'' []))
       \<noteq> Returns (None, Some (errors_New ''unknown service: swarm''))"
    by (simp_all add: request_to_def)
  have more: "Scheme = ''http+npipe''" "''swarm'' \<noteq> []"
    "map_index (pipeMapping (docker_Transport 0 0)) ''swarm'' = None"
    by (simp_all add: Scheme_def docker_Transport_def)
  show ?thesis
    using u hyp(3) more differ res by blast
qed

subsection \<open>The zero value\<close>

text \<open>
  C10. On a transport whose map is nil and whose mutex is free (the zero value, with any
  timeouts): \<open>RoundTrip\<close> for a request that passes validation reads the nil map, finds
  nothing and returns the unknown-service error; \<open>RoundTrip\<close> panics for no request; and
  \<open>RegisterTargetService\<close> returns and leaves a made map holding the one new pair.
\<close>

theorem zero_value_Transport_safe:
  assumes "pipeMapping t = None" and "\<not> mutex t"
  shows "(\<forall>w req u. req_URL req = Some u \<and> url_Scheme u = Scheme \<and> url_Host u \<noteq> [] \<longrightarrow>
            RoundTrip w t req =
              \<lparr>outcome = Returns (None, Some (errors_New (''unknown service: '' @ req_Host req))),
               after = t, events = [Lookup (url_Host u)]\<rparr>)
       \<and> (\<forall>w req msg. outcome (RoundTrip w t req) \<noteq> Panics msg)
       \<and> RegisterTargetService t s p = (Returns (), t\<lparr>pipeMapping := Some [s \<mapsto> p]\<rparr>)"
  using assms
  by (auto simp: RoundTrip_unfold RegisterTargetService_def split: option.splits sum.splits if_splits)

theorem zero_value_Transport_safe_witness:
  "pipeMapping zero_Transport = None \<and> \<not> mutex zero_Transport
 \<and> req_URL (request_to ''http+npipe'' ''docker'' ''docker'')
     = Some \<lparr>url_Scheme = ''http+npipe'', url_Host = ''docker''\<rparr>
 \<and> Scheme = ''http+npipe'' \<and> ''docker'' \<noteq> []
 \<and> RoundTrip pipe_up zero_Transport (request_to ''http+npipe'' ''docker'' ''docker'') =
      \<lparr>outcome = Returns (None, Some (errors_New ''unknown service: docker'')),
       after = zero_Transport, events = [Lookup ''docker'']\<rparr>
 \<and> RegisterTargetService zero_Transport ''docker'' ''//./pipe/docker_engine''
     = (Returns (), zero_Transport\<lparr>pipeMapping := Some [''docker'' \<mapsto> ''//./pipe/docker_engine'']\<rparr>)"
proof -
  have hyp: "pipeMapping zero_Transport = None" "\<not> mutex zero_Transport"
    by (simp_all add: zero_Transport_def)
  let ?R = "request_to ''http+npipe'' ''docker'' ''docker''"
  let ?U = "\<lparr>url_Scheme = ''http+npipe'', url_Host = ''docker''\<rparr>"
  have req: "req_URL ?R = Some ?U" "url_Scheme ?U = Scheme" "url_Host ?U \<noteq> []"
    by (simp_all add: request_to_def Scheme_def)
  note zero = zero_value_Transport_safe [OF hyp, of "''docker''" "''//./pipe/docker_engine''"]
  from zero req have
    "RoundTrip pipe_up zero_Transport ?R =
       \<lparr>outcome = Returns (None, Some (errors_New (''unknown service: '' @ req_Host ?R))),
        after = zero_Transport, events = [Lookup (url_Host ?U)]\<rparr>"
    by blast
  then have trip:
    "RoundTrip pipe_up zero_Transport ?R =
      \<lparr>outcome = Returns (None, Some (errors_New ''unknown service: docker'')),
       after = zero_Transport, events = [Lookup ''docker'']\<rparr>"
    by (simp add: request_to_def)
  have more: "Scheme = ''http+npipe''" "''docker'' \<noteq> []"
    by (simp_all add: Scheme_def)
  from zero have reg:
    "RegisterTargetService zero_Transport ''docker'' ''//./pipe/docker_engine''
       = (Returns (), zero_Transport\<lparr>pipeMapping := Some [''docker'' \<mapsto> ''//./pipe/docker_engine'']\<rparr>)"
    by blast
  show ?thesis
    using hyp req(1) more trip reg by blast
qed

end
